theory Spec2Isabelle
  imports Complex_Main "HOL-Library.AList"
begin

section \<open>Python built-ins used by the program\<close>

text \<open>
  The program is an interactive console session. Its effects are made explicit:
  \<^item> the lines the user will type are a list (\<open>stdin\<close>); \<open>input\<close> on an exhausted
    list raises \<open>EOFError\<close>, as Python's does at end of input;
  \<^item> everything written to the console is appended to \<open>stdout\<close>;
  \<^item> the working directory is a map from file names to file contents (\<open>files\<close>).
  An exception is a value \<open>Inl e\<close>; a function that can raise returns its result together
  with the world (and the manager's stores) as they are at the moment of the raise.

  Python floats are modelled as real numbers: rounding of the arithmetic, infinities and
  NaN are outside the model. Strings are lists of 8-bit characters; \<open>lower\<close> and \<open>strip\<close>
  are modelled on ASCII.
\<close>

datatype error = EOFError | ZeroDivisionError | JSONDecodeError

subsection \<open>Strings\<close>

definition isspace :: "char \<Rightarrow> bool" where
  "isspace c = (let n = (of_char c :: nat) in (9 \<le> n \<and> n \<le> 13) \<or> (28 \<le> n \<and> n \<le> 32))"

text \<open>\<^verbatim>\<open>s.strip()\<close>: leading and trailing whitespace removed.\<close>

definition str_strip :: "string \<Rightarrow> string" where
  "str_strip s = rev (dropWhile isspace (rev (dropWhile isspace s)))"

definition lower_char :: "char \<Rightarrow> char" where
  "lower_char c =
     (let n = (of_char c :: nat) in if 65 \<le> n \<and> n \<le> 90 then char_of (n + 32) else c)"

text \<open>\<^verbatim>\<open>s.lower()\<close>.\<close>

definition str_lower :: "string \<Rightarrow> string" where
  "str_lower s = map lower_char s"

text \<open>\<^verbatim>\<open>s.startswith(p)\<close>.\<close>

fun str_startswith :: "string \<Rightarrow> string \<Rightarrow> bool" where
  "str_startswith s [] = True"
| "str_startswith [] (p # ps) = False"
| "str_startswith (c # cs) (p # ps) = (c = p \<and> str_startswith cs ps)"

text \<open>\<^verbatim>\<open>p in s\<close> on strings: \<open>p\<close> occurs in \<open>s\<close> at some position.\<close>

fun str_contains :: "string \<Rightarrow> string \<Rightarrow> bool" where
  "str_contains [] p = (p = [])"
| "str_contains (c # cs) p = (str_startswith (c # cs) p \<or> str_contains cs p)"

subsection \<open>Dictionaries and files\<close>

text \<open>
  A Python dict keeps insertion order, and \<open>suggest_name\<close> depends on it, so a store is an
  association list: \<open>map fst\<close> is \<^verbatim>\<open>d.keys()\<close>, \<open>map_of\<close> the lookup, and
  \<open>AList.update\<close> is \<^verbatim>\<open>d[k] = v\<close> (the value replaced in place when the key is there,
  the entry appended otherwise).

  A file holds a JSON document of a flat object of numbers, or something \<open>json.load\<close>
  rejects. The text encoding of \<open>json.dump\<close> (indentation, escapes, digits) is not
  modelled: a written file holds the dict that \<open>json.load\<close> reads back from it. That
  \<open>json.load\<close> inverts \<open>json.dump\<close> is therefore an assumption of this model, not a
  result of it: the theorems below use the files only for which file is written, with
  which store, and whether a file exists.
\<close>

type_synonym dict = "(string \<times> real) list"

datatype file_content = Json_object dict | Malformed

subsection \<open>Console\<close>

datatype printed =
    Prompt string
  | Line string
  | Cost_report string real
  | No_recipes
  | Listing_header
  | Listing_entry string real

record world =
  stdin :: "string list"
  stdout :: "printed list"
  files :: "string \<rightharpoonup> file_content"

definition print :: "printed \<Rightarrow> world \<Rightarrow> world" where
  "print x w = w\<lparr>stdout := stdout w @ [x]\<rparr>"

text \<open>\<^verbatim>\<open>input(prompt)\<close>: writes the prompt, then reads one line.\<close>

definition input :: "string \<Rightarrow> world \<Rightarrow> (error + string) \<times> world" where
  "input prompt w =
     (case stdin w of
        [] \<Rightarrow> (Inl EOFError, print (Prompt prompt) w)
      | l # ls \<Rightarrow> (Inr l, (print (Prompt prompt) w)\<lparr>stdin := ls\<rparr>))"

section \<open>Fuzzy matching helper\<close>

text \<open>Line 34: the list comprehension that computes the suggestions.\<close>

definition suggestions :: "string \<Rightarrow> string list \<Rightarrow> string list" where
  "suggestions input_name_lower valid_names =
     filter (\<lambda>name. str_contains (str_lower name) input_name_lower
                   \<or> str_startswith (str_lower name) input_name_lower) valid_names"

text \<open>The candidate set by the substring clause alone, as the claim words it.\<close>

definition suggestions_substring_only :: "string \<Rightarrow> string list \<Rightarrow> string list" where
  "suggestions_substring_only input_name_lower valid_names =
     filter (\<lambda>name. str_contains (str_lower name) input_name_lower) valid_names"

definition quote :: string where
  "quote = [CHR 0x27]"

definition confirm_prompt :: "string \<Rightarrow> string \<Rightarrow> string" where
  "confirm_prompt suggestion input_name =
     ''Did you mean '' @ quote @ suggestion @ quote @ '' instead of '' @ quote @ input_name
       @ quote @ ''? (y/n): ''"

definition suggest_name :: "string \<Rightarrow> string list \<Rightarrow> world \<Rightarrow> (error + string) \<times> world" where
  "suggest_name input_name valid_names w =
     (let input_name_lower = str_lower input_name in
      case find (\<lambda>name. str_lower name = input_name_lower) valid_names of
        Some name \<Rightarrow> (Inr name, w)
      | None \<Rightarrow>
          (case suggestions input_name_lower valid_names of
             [] \<Rightarrow> (Inr input_name, w)
           | suggestion # _ \<Rightarrow>
               (case input (confirm_prompt suggestion input_name) w of
                  (Inl e, w') \<Rightarrow> (Inl e, w')
                | (Inr line, w') \<Rightarrow>
                    (let confirm = str_lower (str_strip line) in
                     (Inr (if confirm = ''y'' then suggestion else input_name), w')))))"

section \<open>Input validation helpers\<close>

subsection \<open>The built-in conversions\<close>

text \<open>
  \<^verbatim>\<open>float(s)\<close> on a decimal literal, after Python's grammar: surrounding whitespace is
  dropped; then an optional sign, a number (\<open>digitpart\<close> with an optional point, digits
  allowed to be separated by single underscores) and an optional exponent. \<open>None\<close> is
  \<open>ValueError\<close>. The literals \<open>inf\<close> and \<open>nan\<close> denote no real number and are rejected here.
\<close>

definition is_digit :: "char \<Rightarrow> bool" where
  "is_digit c = (let n = (of_char c :: nat) in 48 \<le> n \<and> n \<le> 57)"

fun digitpart :: "string \<Rightarrow> bool" where
  "digitpart [] = False"
| "digitpart [c] = is_digit c"
| "digitpart (c # d # cs) =
     (is_digit c \<and> (if d = CHR ''_'' then digitpart cs else digitpart (d # cs)))"

definition digits_value :: "string \<Rightarrow> nat" where
  "digits_value s = foldl (\<lambda>a c. 10 * a + (of_char c - 48)) 0 (filter is_digit s)"

definition split_sign :: "string \<Rightarrow> bool \<times> string" where
  "split_sign s =
     (case s of
        [] \<Rightarrow> (False, s)
      | c # cs \<Rightarrow> if c = CHR ''-'' then (True, cs) else if c = CHR ''+'' then (False, cs)
                 else (False, s))"

definition parse_number :: "string \<Rightarrow> real option" where
  "parse_number s =
     (let ip = takeWhile (\<lambda>c. c \<noteq> CHR ''.'') s;
          rest = dropWhile (\<lambda>c. c \<noteq> CHR ''.'') s
      in case rest of
           [] \<Rightarrow> if digitpart ip then Some (real (digits_value ip)) else None
         | _ # fp \<Rightarrow>
             if fp = [] then (if digitpart ip then Some (real (digits_value ip)) else None)
             else if (ip = [] \<or> digitpart ip) \<and> digitpart fp
               then Some (real (digits_value ip)
                          + real (digits_value fp) / 10 ^ length (filter is_digit fp))
               else None)"

definition parse_exponent :: "string \<Rightarrow> int option" where
  "parse_exponent s =
     (case split_sign s of
        (neg, ds) \<Rightarrow>
          if digitpart ds
          then Some (if neg then - int (digits_value ds) else int (digits_value ds))
          else None)"

definition scale10 :: "real \<Rightarrow> int \<Rightarrow> real" where
  "scale10 x k = (if 0 \<le> k then x * 10 ^ nat k else x / 10 ^ nat (- k))"

definition float :: "string \<Rightarrow> real option" where
  "float s =
     (case split_sign (str_strip s) of
        (neg, u) \<Rightarrow>
          (let is_e = (\<lambda>c. c = CHR ''e'' \<or> c = CHR ''E'');
               mantissa = takeWhile (\<lambda>c. \<not> is_e c) u;
               rest = dropWhile (\<lambda>c. \<not> is_e c) u;
               signed = (\<lambda>x. if neg then - x else x)
           in case parse_number mantissa of
                None \<Rightarrow> None
              | Some x \<Rightarrow>
                  (case rest of
                     [] \<Rightarrow> Some (signed x)
                   | _ # ex \<Rightarrow>
                       (case parse_exponent ex of
                          None \<Rightarrow> None
                        | Some k \<Rightarrow> Some (signed (scale10 x k))))))"

text \<open>\<^verbatim>\<open>int(x)\<close> on a float: truncation towards zero.\<close>

definition py_int :: "real \<Rightarrow> int" where
  "py_int x = (if 0 \<le> x then \<lfloor>x\<rfloor> else \<lceil>x\<rceil>)"

text \<open>\<^verbatim>\<open>round(x, 2)\<close>: to the nearest multiple of 0.01, a tie to the even one.\<close>

definition round_half_even :: "real \<Rightarrow> int" where
  "round_half_even y =
     (let f = \<lfloor>y\<rfloor>; d = y - of_int f
      in if d < 1 / 2 then f else if 1 / 2 < d then f + 1 else if even f then f else f + 1)"

definition round2 :: "real \<Rightarrow> real" where
  "round2 x = of_int (round_half_even (x * 100)) / 100"

subsection \<open>The prompt loops\<close>

lemma input_consumes:
  "input prompt w = (Inr s, w') \<Longrightarrow> length (stdin w') < length (stdin w)"
  by (auto simp: input_def print_def split: list.splits)

function get_positive_float :: "string \<Rightarrow> world \<Rightarrow> (error + real) \<times> world" where
  "get_positive_float prompt w =
     (case input prompt w of
        (Inl e, w') \<Rightarrow> (Inl e, w')
      | (Inr s, w') \<Rightarrow>
          (case float s of
             Some v \<Rightarrow>
               if 0 < v then (Inr v, w')
               else get_positive_float prompt (print (Line ''Please enter a positive number.'') w')
           | None \<Rightarrow>
               get_positive_float prompt
                 (print (Line ''Invalid input. Please enter a number.'') w')))"
  by pat_completeness auto
termination
  by (relation "measure (\<lambda>(prompt, w). length (stdin w))")
     (auto dest!: input_consumes [OF sym] simp: print_def)

function get_non_empty_string :: "string \<Rightarrow> world \<Rightarrow> (error + string) \<times> world" where
  "get_non_empty_string prompt w =
     (case input prompt w of
        (Inl e, w') \<Rightarrow> (Inl e, w')
      | (Inr s, w') \<Rightarrow>
          (let v = str_strip s
           in if v \<noteq> [] then (Inr v, w')
              else get_non_empty_string prompt (print (Line ''Input cannot be empty.'') w')))"
  by pat_completeness auto
termination
  by (relation "measure (\<lambda>(prompt, w). length (stdin w))")
     (auto dest!: input_consumes [OF sym] simp: print_def)

declare get_positive_float.simps [simp del]
declare get_non_empty_string.simps [simp del]

text \<open>No helper gives lines back to the input; a successful prompt takes at least one.\<close>

lemma input_stdin_le: "input prompt w = (r, w') \<Longrightarrow> length (stdin w') \<le> length (stdin w)"
  by (auto simp: input_def print_def split: list.splits)

lemma stdin_print [simp]: "stdin (print x w) = stdin w"
  by (simp add: print_def)

lemma files_print [simp]: "files (print x w) = files w"
  by (simp add: print_def)

lemma get_positive_float_stdin_le:
  "get_positive_float prompt w = (r, w') \<Longrightarrow> length (stdin w') \<le> length (stdin w)"
proof (induction prompt w rule: get_positive_float.induct)
  case (1 prompt w)
  obtain r0 w0 where i: "input prompt w = (r0, w0)" by (cases "input prompt w")
  from input_stdin_le [OF i] "1.prems" "1.IH" [OF i [symmetric]] i
  show ?case
    by (subst (asm) get_positive_float.simps)
       (fastforce split: sum.splits option.splits if_splits)
qed

lemma get_positive_float_consumes:
  "get_positive_float prompt w = (Inr v, w') \<Longrightarrow> length (stdin w') < length (stdin w)"
proof -
  assume a: "get_positive_float prompt w = (Inr v, w')"
  obtain r0 w0 where i: "input prompt w = (r0, w0)" by (cases "input prompt w")
  show ?thesis
  proof (cases r0)
    case (Inl e)
    with a i show ?thesis by (subst (asm) get_positive_float.simps) simp
  next
    case (Inr s)
    from a i Inr input_consumes [of prompt w s w0]
      get_positive_float_stdin_le [of prompt "print (Line ''Please enter a positive number.'') w0" "Inr v" w']
      get_positive_float_stdin_le [of prompt "print (Line ''Invalid input. Please enter a number.'') w0" "Inr v" w']
    show ?thesis
      by (subst (asm) get_positive_float.simps)
         (auto split: option.splits if_splits)
  qed
qed

lemma get_non_empty_string_stdin_le:
  "get_non_empty_string prompt w = (r, w') \<Longrightarrow> length (stdin w') \<le> length (stdin w)"
proof (induction prompt w rule: get_non_empty_string.induct)
  case (1 prompt w)
  obtain r0 w0 where i: "input prompt w = (r0, w0)" by (cases "input prompt w")
  from input_stdin_le [OF i] "1.prems" "1.IH" [OF i [symmetric]] i
  show ?case
    by (subst (asm) get_non_empty_string.simps)
       (fastforce split: sum.splits if_splits simp: Let_def)
qed

section \<open>Ingredient and Recipe\<close>

record Ingredient =
  name :: string
  weight_g :: real
  cost_per_g :: real

definition Ingredient_total_cost :: "Ingredient \<Rightarrow> real" where
  "Ingredient_total_cost ing = weight_g ing * cost_per_g ing"

record Recipe =
  name :: string
  portions :: int
  ingredients :: "Ingredient list"

definition Recipe_init :: "string \<Rightarrow> int \<Rightarrow> Recipe" where
  "Recipe_init n p = \<lparr>Recipe.name = n, portions = p, ingredients = []\<rparr>"

definition add_ingredient :: "Recipe \<Rightarrow> Ingredient \<Rightarrow> Recipe" where
  "add_ingredient r ingredient = r\<lparr>ingredients := ingredients r @ [ingredient]\<rparr>"

text \<open>\<^verbatim>\<open>sum(...)\<close> adds the items to 0, from the left.\<close>

definition Recipe_total_cost :: "Recipe \<Rightarrow> real" where
  "Recipe_total_cost r = foldl (\<lambda>acc ing. acc + Ingredient_total_cost ing) 0 (ingredients r)"

text \<open>Python's \<open>/\<close> raises \<open>ZeroDivisionError\<close> on a zero divisor.\<close>

definition cost_per_portion :: "Recipe \<Rightarrow> error + real" where
  "cost_per_portion r =
     (if portions r = 0 then Inl ZeroDivisionError
      else Inr (Recipe_total_cost r / of_int (portions r)))"

section \<open>Recipe manager\<close>

definition INGREDIENTS_FILE :: string where
  "INGREDIENTS_FILE = ''ingredients.json''"

definition RECIPES_FILE :: string where
  "RECIPES_FILE = ''recipes.json''"

record manager =
  ingredients_db :: dict
  recipes_db :: dict

text \<open>\<open>os.path.exists(filename)\<close> is \<open>files w filename \<noteq> None\<close>.\<close>

definition load_data :: "string \<Rightarrow> world \<Rightarrow> error + dict" where
  "load_data filename w =
     (case files w filename of
        Some content \<Rightarrow>
          (case content of Json_object d \<Rightarrow> Inr d | Malformed \<Rightarrow> Inl JSONDecodeError)
      | None \<Rightarrow> Inr [])"

text \<open>Mode \<^verbatim>\<open>"w"\<close>: the file is created or replaced as a whole.\<close>

definition save_data :: "string \<Rightarrow> dict \<Rightarrow> world \<Rightarrow> world" where
  "save_data filename data w = w\<lparr>files := (files w)(filename \<mapsto> Json_object data)\<rparr>"

definition manager_init :: "world \<Rightarrow> error + manager" where
  "manager_init w =
     (case load_data INGREDIENTS_FILE w of
        Inl e \<Rightarrow> Inl e
      | Inr idb \<Rightarrow>
          (case load_data RECIPES_FILE w of
             Inl e \<Rightarrow> Inl e
           | Inr rdb \<Rightarrow> Inr \<lparr>ingredients_db = idb, recipes_db = rdb\<rparr>))"

definition get_cost_per_gram ::
  "string \<Rightarrow> manager \<Rightarrow> world \<Rightarrow> (error + real) \<times> manager \<times> world" where
  "get_cost_per_gram n m w =
     (case suggest_name n (map fst (ingredients_db m)) w of
        (Inl e, w1) \<Rightarrow> (Inl e, m, w1)
      | (Inr n', w1) \<Rightarrow>
          (case map_of (ingredients_db m) n' of
             Some c \<Rightarrow> (Inr c, m, w1)
           | None \<Rightarrow>
               (case get_positive_float (''Enter cost per gram for '' @ n' @ '': '') w1 of
                  (Inl e, w2) \<Rightarrow> (Inl e, m, w2)
                | (Inr cost, w2) \<Rightarrow>
                    (let m' = m\<lparr>ingredients_db := AList.update n' cost (ingredients_db m)\<rparr>;
                         w3 = save_data INGREDIENTS_FILE (ingredients_db m') w2
                     in (Inr cost, m', w3)))))"

lemma suggest_name_stdin_le:
  "suggest_name n names w = (r, w') \<Longrightarrow> length (stdin w') \<le> length (stdin w)"
  by (auto simp: suggest_name_def Let_def split: option.splits list.splits prod.splits sum.splits
           dest: input_stdin_le)

lemma stdin_save_data [simp]: "stdin (save_data f d w) = stdin w"
  by (simp add: save_data_def)

lemma get_cost_per_gram_stdin_le:
  "get_cost_per_gram n m w = (r, m', w') \<Longrightarrow> length (stdin w') \<le> length (stdin w)"
  by (auto simp: get_cost_per_gram_def Let_def split: option.splits prod.splits sum.splits
           dest!: suggest_name_stdin_le get_positive_float_stdin_le)

text \<open>
  The \<^verbatim>\<open>while True\<close> loop of \<open>create_recipe\<close>. \<open>ingredient_step\<close> is one pass through
  its body (lines 99 to 106), up to the answer \<open>cont\<close>; \<open>add_ingredients\<close> is the loop
  with its \<^verbatim>\<open>break\<close> (lines 107 and 108).
\<close>

definition ingredient_step ::
  "Recipe \<Rightarrow> manager \<Rightarrow> world \<Rightarrow> (error + Recipe \<times> string) \<times> manager \<times> world" where
  "ingredient_step recipe m w =
     (case get_non_empty_string ''Enter ingredient name: '' w of
        (Inl e, w1) \<Rightarrow> (Inl e, m, w1)
      | (Inr typed, w1) \<Rightarrow>
          (case suggest_name typed (map fst (ingredients_db m)) w1 of
             (Inl e, w2) \<Rightarrow> (Inl e, m, w2)
           | (Inr ing_name, w2) \<Rightarrow>
               (case get_positive_float (''Enter weight in grams for '' @ ing_name @ '': '') w2 of
                  (Inl e, w3) \<Rightarrow> (Inl e, m, w3)
                | (Inr weight, w3) \<Rightarrow>
                    (case get_cost_per_gram ing_name m w3 of
                       (Inl e, m4, w4) \<Rightarrow> (Inl e, m4, w4)
                     | (Inr cost, m4, w4) \<Rightarrow>
                         (let ingredient = \<lparr>Ingredient.name = ing_name, weight_g = weight,
                                             cost_per_g = cost\<rparr>;
                              recipe' = add_ingredient recipe ingredient
                          in case input ''Add another ingredient? (y/n): '' w4 of
                               (Inl e, w5) \<Rightarrow> (Inl e, m4, w5)
                             | (Inr line, w5) \<Rightarrow> (Inr (recipe', str_lower line), m4, w5))))))"

lemma ingredient_step_consumes:
  assumes "ingredient_step recipe m w = (Inr x, m', w')"
  shows "length (stdin w') < length (stdin w)"
proof -
  from assms obtain typed w1 ing_name w2 weight w3 cost w4 line where
    "get_non_empty_string ''Enter ingredient name: '' w = (Inr typed, w1)"
    "suggest_name typed (map fst (ingredients_db m)) w1 = (Inr ing_name, w2)"
    "get_positive_float (''Enter weight in grams for '' @ ing_name @ '': '') w2 = (Inr weight, w3)"
    "get_cost_per_gram ing_name m w3 = (Inr cost, m', w4)"
    "input ''Add another ingredient? (y/n): '' w4 = (Inr line, w')"
    by (auto simp: ingredient_step_def Let_def split: prod.splits sum.splits)
  then have "length (stdin w1) \<le> length (stdin w)" "length (stdin w2) \<le> length (stdin w1)"
    "length (stdin w3) \<le> length (stdin w2)" "length (stdin w4) \<le> length (stdin w3)"
    "length (stdin w') < length (stdin w4)"
    by (auto dest: get_non_empty_string_stdin_le suggest_name_stdin_le
          get_positive_float_stdin_le get_cost_per_gram_stdin_le input_consumes)
  then show ?thesis by simp
qed

function add_ingredients ::
  "Recipe \<Rightarrow> manager \<Rightarrow> world \<Rightarrow> (error + Recipe) \<times> manager \<times> world" where
  "add_ingredients recipe m w =
     (case ingredient_step recipe m w of
        (Inl e, m', w') \<Rightarrow> (Inl e, m', w')
      | (Inr (recipe', cont), m', w') \<Rightarrow>
          if cont \<noteq> ''y'' then (Inr recipe', m', w') else add_ingredients recipe' m' w')"
  by pat_completeness auto
termination
  by (relation "measure (\<lambda>(recipe, m, w). length (stdin w))")
     (auto dest: ingredient_step_consumes [OF sym])

declare add_ingredients.simps [simp del]

definition create_recipe :: "manager \<Rightarrow> world \<Rightarrow> (error + unit) \<times> manager \<times> world" where
  "create_recipe m w =
     (case get_non_empty_string ''Enter recipe name: '' w of
        (Inl e, w1) \<Rightarrow> (Inl e, m, w1)
      | (Inr n, w1) \<Rightarrow>
          (case get_positive_float ''Enter number of portions: '' w1 of
             (Inl e, w2) \<Rightarrow> (Inl e, m, w2)
           | (Inr p, w2) \<Rightarrow>
               (case add_ingredients (Recipe_init n (py_int p)) m w2 of
                  (Inl e, m3, w3) \<Rightarrow> (Inl e, m3, w3)
                | (Inr recipe, m3, w3) \<Rightarrow>
                    (case cost_per_portion recipe of
                       Inl e \<Rightarrow> (Inl e, m3, w3)
                     | Inr cost \<Rightarrow>
                         (let w4 = print (Cost_report n cost) w3;
                              m4 = m3\<lparr>recipes_db := AList.update n (round2 cost) (recipes_db m3)\<rparr>;
                              w5 = save_data RECIPES_FILE (recipes_db m4) w4
                          in (Inr (), m4, w5))))))"

definition view_recipe_cost :: "manager \<Rightarrow> world \<Rightarrow> world" where
  "view_recipe_cost m w =
     (if recipes_db m = [] then print No_recipes w
      else foldl (\<lambda>w' (n, cost). print (Listing_entry n cost) w') (print Listing_header w)
             (recipes_db m))"

text \<open>
  The operations of the manager, and a run of any sequence of them on one manager. A run
  stops at the first exception, with the stores as the exception left them.
\<close>

datatype operation = Get_cost_per_gram string | Create_recipe | View_recipe_cost

definition run_operation ::
  "operation \<Rightarrow> manager \<Rightarrow> world \<Rightarrow> (error + unit) \<times> manager \<times> world" where
  "run_operation op m w =
     (case op of
        Get_cost_per_gram n \<Rightarrow>
          (case get_cost_per_gram n m w of (r, m', w') \<Rightarrow> (map_sum id (\<lambda>_. ()) r, m', w'))
      | Create_recipe \<Rightarrow> create_recipe m w
      | View_recipe_cost \<Rightarrow> (Inr (), m, view_recipe_cost m w))"

fun run_operations ::
  "operation list \<Rightarrow> manager \<Rightarrow> world \<Rightarrow> (error + unit) \<times> manager \<times> world" where
  "run_operations [] m w = (Inr (), m, w)"
| "run_operations (op # ops) m w =
     (case run_operation op m w of
        (Inl e, m', w') \<Rightarrow> (Inl e, m', w')
      | (Inr _, m', w') \<Rightarrow> run_operations ops m' w')"

text \<open>
  The ingredient file mirrors the in-memory ingredient store: it holds exactly the store,
  or is absent while the store is empty. This is the state \<open>manager_init\<close> leaves.
\<close>

definition ingredients_synced :: "manager \<Rightarrow> world \<Rightarrow> bool" where
  "ingredients_synced m w =
     (case files w INGREDIENTS_FILE of
        None \<Rightarrow> ingredients_db m = []
      | Some content \<Rightarrow> content = Json_object (ingredients_db m))"

text \<open>The lines \<open>get_positive_float\<close> accepts: those that parse to a number above 0.\<close>

definition accepted :: "string \<Rightarrow> bool" where
  "accepted s = (case float s of Some v \<Rightarrow> 0 < v | None \<Rightarrow> False)"

section \<open>Properties of the helpers\<close>

subsection \<open>Strings and numbers\<close>

lemma str_startswith_contains: "str_startswith s p \<Longrightarrow> str_contains s p"
  by (cases s) (auto elim: str_startswith.elims)

lemma foldl_add_sum_list:
  "foldl (\<lambda>acc x. acc + f x) (a::real) xs = a + sum_list (map f xs)"
  by (induction xs arbitrary: a) (simp_all add: algebra_simps)

lemma update_absent: "map_of al k = None \<Longrightarrow> AList.update k v al = al @ [(k, v)]"
  by (induction al) (auto split: if_splits)

lemma round_half_even_close: "\<bar>of_int (round_half_even y) - y\<bar> \<le> 1 / 2"
  unfolding round_half_even_def Let_def
  by (auto simp: abs_if) linarith+

lemma round2_close: "\<bar>round2 x - x\<bar> \<le> 1 / 200"
proof -
  have "\<bar>round2 x - x\<bar> = \<bar>of_int (round_half_even (x * 100)) - x * 100\<bar> / 100"
    by (simp add: round2_def abs_if field_simps)
  also have "\<dots> \<le> (1 / 2) / 100"
    using round_half_even_close [of "x * 100"] by (simp add: divide_right_mono)
  finally show ?thesis by simp
qed

lemma py_int_below_one: "0 < x \<Longrightarrow> x < 1 \<Longrightarrow> py_int x = 0"
  by (simp add: py_int_def floor_eq_iff)

subsection \<open>The prompt loops\<close>

text \<open>
  \<open>get_positive_float\<close> returns the first accepted line of the input, and raises
  \<open>EOFError\<close> when there is none; what it returns is positive.
\<close>

lemma get_positive_float_result:
  "fst (get_positive_float prompt w)
     = (case find accepted (stdin w) of
          None \<Rightarrow> Inl EOFError
        | Some s \<Rightarrow> Inr (the (float s)))"
proof (induction prompt w rule: get_positive_float.induct)
  case (1 prompt w)
  show ?case
  proof (cases "stdin w")
    case Nil
    then show ?thesis
      by (subst get_positive_float.simps) (simp add: input_def)
  next
    case (Cons l ls)
    define w0 where "w0 = (print (Prompt prompt) w)\<lparr>stdin := ls\<rparr>"
    have i: "input prompt w = (Inr l, w0)"
      using Cons by (simp add: input_def w0_def)
    have s0: "stdin w0 = ls"
      by (simp add: w0_def)
    show ?thesis
    proof (cases "float l")
      case None
      then have "\<not> accepted l" by (simp add: accepted_def)
      with "1.IH"(1) [OF i [symmetric] refl None] Cons i None s0
      show ?thesis
        by (subst get_positive_float.simps) simp
    next
      case (Some v)
      show ?thesis
      proof (cases "0 < v")
        case True
        with Some have "accepted l" by (simp add: accepted_def)
        with Cons i Some True show ?thesis
          by (subst get_positive_float.simps) simp
      next
        case False
        with Some have "\<not> accepted l" by (simp add: accepted_def)
        with "1.IH"(2) [OF i [symmetric] refl Some False] Cons i Some False s0
        show ?thesis
          by (subst get_positive_float.simps) simp
      qed
    qed
  qed
qed

lemma get_positive_float_positive:
  "get_positive_float prompt w = (Inr v, w') \<Longrightarrow> 0 < v"
proof (induction prompt w rule: get_positive_float.induct)
  case (1 prompt w)
  obtain r0 w0 where i: "input prompt w = (r0, w0)" by (cases "input prompt w")
  from "1.prems" "1.IH" [OF i [symmetric]] i
  show ?case
    by (subst (asm) get_positive_float.simps)
       (fastforce split: sum.splits option.splits if_splits)
qed

subsection \<open>Only \<open>save_data\<close> writes files\<close>

lemma files_input: "input prompt w = (r, w') \<Longrightarrow> files w' = files w"
  by (auto simp: input_def print_def split: list.splits)

lemma get_positive_float_files:
  "get_positive_float prompt w = (r, w') \<Longrightarrow> files w' = files w"
proof (induction prompt w rule: get_positive_float.induct)
  case (1 prompt w)
  obtain r0 w0 where i: "input prompt w = (r0, w0)" by (cases "input prompt w")
  from files_input [OF i] "1.prems" "1.IH" [OF i [symmetric]] i
  show ?case
    by (subst (asm) get_positive_float.simps)
       (fastforce split: sum.splits option.splits if_splits)
qed

lemma get_non_empty_string_files:
  "get_non_empty_string prompt w = (r, w') \<Longrightarrow> files w' = files w"
proof (induction prompt w rule: get_non_empty_string.induct)
  case (1 prompt w)
  obtain r0 w0 where i: "input prompt w = (r0, w0)" by (cases "input prompt w")
  from files_input [OF i] "1.prems" "1.IH" [OF i [symmetric]] i
  show ?case
    by (subst (asm) get_non_empty_string.simps)
       (fastforce split: sum.splits if_splits simp: Let_def)
qed

lemma suggest_name_files:
  "suggest_name n names w = (r, w') \<Longrightarrow> files w' = files w"
  by (auto simp: suggest_name_def Let_def split: option.splits list.splits prod.splits sum.splits
           dest: files_input)

lemma files_view_recipe_cost: "files (view_recipe_cost m w) = files w"
proof -
  have "\<And>w. files (foldl (\<lambda>w' (n, cost). print (Listing_entry n cost) w') w xs) = files w" for xs
    by (induction xs) (auto simp: split_def)
  then show ?thesis by (simp add: view_recipe_cost_def)
qed

lemma files_differ: "INGREDIENTS_FILE \<noteq> RECIPES_FILE"
  by (simp add: INGREDIENTS_FILE_def RECIPES_FILE_def)

subsection \<open>The ingredient loop\<close>

text \<open>An induction rule over the passes of the loop, for a result of \<open>add_ingredients\<close>.\<close>

lemma add_ingredients_result_induct [consumes 1, case_names error stop continue]:
  assumes "add_ingredients recipe m w = (r, m', w')"
    and "\<And>recipe m w e m1 w1.
           ingredient_step recipe m w = (Inl e, m1, w1) \<Longrightarrow> P recipe m w (Inl e) m1 w1"
    and "\<And>recipe m w recipe1 cont m1 w1.
           ingredient_step recipe m w = (Inr (recipe1, cont), m1, w1) \<Longrightarrow> cont \<noteq> ''y'' \<Longrightarrow>
           P recipe m w (Inr recipe1) m1 w1"
    and "\<And>recipe m w recipe1 m1 w1 r m' w'.
           ingredient_step recipe m w = (Inr (recipe1, ''y''), m1, w1) \<Longrightarrow>
           add_ingredients recipe1 m1 w1 = (r, m', w') \<Longrightarrow>
           P recipe1 m1 w1 r m' w' \<Longrightarrow> P recipe m w r m' w'"
  shows "P recipe m w r m' w'"
  using assms(1)
proof (induction recipe m w rule: add_ingredients.induct)
  case (1 recipe m w)
  obtain r1 m1 w1 where s: "ingredient_step recipe m w = (r1, m1, w1)"
    by (cases "ingredient_step recipe m w")
  show ?case
  proof (cases r1)
    case (Inl e)
    with "1.prems" s have "r = Inl e" "m' = m1" "w' = w1"
      by (subst (asm) add_ingredients.simps, simp)+
    with s Inl assms(2) show ?thesis by simp
  next
    case (Inr x)
    obtain recipe1 cont where x: "x = (recipe1, cont)" by (cases x)
    show ?thesis
    proof (cases "cont = ''y''")
      case False
      with "1.prems" s Inr x have "r = Inr recipe1" "m' = m1" "w' = w1"
        by (subst (asm) add_ingredients.simps, simp)+
      with s Inr x False assms(3) show ?thesis by simp
    next
      case True
      with "1.prems" s Inr x have rec: "add_ingredients recipe1 m1 w1 = (r, m', w')"
        by (subst (asm) add_ingredients.simps) simp
      have "P recipe1 m1 w1 r m' w'"
        using "1.IH" s Inr x True rec by auto
      with s Inr x True rec assms(4) show ?thesis by simp
    qed
  qed
qed

lemma ingredient_step_recipe:
  assumes "ingredient_step recipe m w = (Inr (recipe1, cont), m1, w1)"
  shows "Recipe.name recipe1 = Recipe.name recipe \<and> portions recipe1 = portions recipe
         \<and> (\<exists>ing. ingredients recipe1 = ingredients recipe @ [ing])"
  using assms
  by (auto simp: ingredient_step_def Let_def add_ingredient_def split: prod.splits sum.splits)

lemma add_ingredients_recipe:
  assumes "add_ingredients recipe m w = (r, m', w')"
  shows "\<forall>recipe'. r = Inr recipe' \<longrightarrow>
           Recipe.name recipe' = Recipe.name recipe \<and> portions recipe' = portions recipe
           \<and> (\<exists>ings. ings \<noteq> [] \<and> ingredients recipe' = ingredients recipe @ ings)"
  using assms
proof (induction rule: add_ingredients_result_induct)
  case (error recipe m w e m1 w1)
  then show ?case by simp
next
  case (stop recipe m w recipe1 cont m1 w1)
  from ingredient_step_recipe [OF stop(1)] obtain ing where
    "Recipe.name recipe1 = Recipe.name recipe" "portions recipe1 = portions recipe"
    "ingredients recipe1 = ingredients recipe @ [ing]"
    by blast
  then show ?case by blast
next
  case (continue recipe m w recipe1 m1 w1 r m' w')
  from ingredient_step_recipe [OF continue(1)] obtain ing where
    s: "Recipe.name recipe1 = Recipe.name recipe" "portions recipe1 = portions recipe"
    "ingredients recipe1 = ingredients recipe @ [ing]"
    by blast
  show ?case
  proof (intro allI impI)
    fix recipe'
    assume "r = Inr recipe'"
    with continue(3) obtain ings where
      "Recipe.name recipe' = Recipe.name recipe1" "portions recipe' = portions recipe1"
      "ingredients recipe' = ingredients recipe1 @ ings"
      by blast
    with s have "Recipe.name recipe' = Recipe.name recipe" "portions recipe' = portions recipe"
      "ing # ings \<noteq> []" "ingredients recipe' = ingredients recipe @ (ing # ings)"
      by simp_all
    then show "Recipe.name recipe' = Recipe.name recipe \<and> portions recipe' = portions recipe
         \<and> (\<exists>ings. ings \<noteq> [] \<and> ingredients recipe' = ingredients recipe @ ings)"
      by blast
  qed
qed

subsection \<open>The ingredient store only grows\<close>

lemma get_cost_per_gram_appends:
  assumes "get_cost_per_gram n m w = (r, m', w')"
  shows "(\<exists>added. ingredients_db m' = ingredients_db m @ added) \<and> recipes_db m' = recipes_db m"
  using assms
  by (auto simp: get_cost_per_gram_def Let_def update_absent
           split: prod.splits sum.splits option.splits)

lemma ingredient_step_appends:
  assumes "ingredient_step recipe m w = (r, m', w')"
  shows "(\<exists>added. ingredients_db m' = ingredients_db m @ added) \<and> recipes_db m' = recipes_db m"
  using assms
  by (auto simp: ingredient_step_def Let_def split: prod.splits sum.splits
           dest: get_cost_per_gram_appends)

lemma add_ingredients_appends:
  assumes "add_ingredients recipe m w = (r, m', w')"
  shows "(\<exists>added. ingredients_db m' = ingredients_db m @ added) \<and> recipes_db m' = recipes_db m"
  using assms
proof (induction rule: add_ingredients_result_induct)
  case (continue recipe m w recipe1 m1 w1 r m' w')
  from ingredient_step_appends [OF continue(1)] continue(3) show ?case
    by (metis append.assoc)
qed (auto dest: ingredient_step_appends)

lemma create_recipe_appends:
  assumes "create_recipe m w = (r, m', w')"
  shows "\<exists>added. ingredients_db m' = ingredients_db m @ added"
  using assms
  by (auto simp: create_recipe_def Let_def split: prod.splits sum.splits
           dest!: add_ingredients_appends)

lemma run_operation_appends:
  assumes "run_operation op m w = (r, m', w')"
  shows "\<exists>added. ingredients_db m' = ingredients_db m @ added"
  using assms
  by (cases op)
     (auto simp: run_operation_def split: prod.splits
           dest: get_cost_per_gram_appends create_recipe_appends)

subsection \<open>The ingredient file follows the ingredient store\<close>

lemma manager_init_synced: "manager_init w = Inr m \<Longrightarrow> ingredients_synced m w"
  by (auto simp: manager_init_def load_data_def ingredients_synced_def
           split: option.splits file_content.splits sum.splits)

lemma synced_files_cong:
  "files w' = files w \<Longrightarrow> ingredients_synced m w' = ingredients_synced m w"
  by (simp add: ingredients_synced_def)

lemma get_cost_per_gram_synced:
  assumes "get_cost_per_gram n m w = (r, m', w')" and "ingredients_synced m w"
  shows "ingredients_synced m' w'"
  using assms
  by (auto simp: get_cost_per_gram_def Let_def ingredients_synced_def save_data_def
           split: prod.splits sum.splits option.splits
           dest!: suggest_name_files get_positive_float_files)

lemma ingredient_step_files:
  assumes "ingredient_step recipe m w = (r, m', w')"
  shows "(m' = m \<and> files w' = files w)
         \<or> (\<exists>n w3 r4 w4. get_cost_per_gram n m w3 = (r4, m', w4)
                \<and> files w3 = files w \<and> files w' = files w4)"
proof -
  obtain r1 w1 where g1: "get_non_empty_string ''Enter ingredient name: '' w = (r1, w1)"
    by (cases "get_non_empty_string ''Enter ingredient name: '' w")
  note f1 = get_non_empty_string_files [OF g1]
  show ?thesis
  proof (cases r1)
    case (Inl e)
    with assms g1 f1 show ?thesis by (simp add: ingredient_step_def)
  next
    case typed: (Inr typed)
    obtain r2 w2 where g2: "suggest_name typed (map fst (ingredients_db m)) w1 = (r2, w2)"
      by (cases "suggest_name typed (map fst (ingredients_db m)) w1")
    note f2 = suggest_name_files [OF g2]
    show ?thesis
    proof (cases r2)
      case (Inl e)
      with assms g1 typed g2 f1 f2 show ?thesis by (simp add: ingredient_step_def)
    next
      case ing_name: (Inr ing_name)
      obtain r3 w3 where
        g3: "get_positive_float (''Enter weight in grams for '' @ ing_name @ '': '') w2 = (r3, w3)"
        by (cases "get_positive_float (''Enter weight in grams for '' @ ing_name @ '': '') w2")
      note f3 = get_positive_float_files [OF g3]
      show ?thesis
      proof (cases r3)
        case (Inl e)
        with assms g1 typed g2 ing_name g3 f1 f2 f3 show ?thesis
          by (simp add: ingredient_step_def)
      next
        case weight: (Inr weight)
        obtain r4 m4 w4 where g4: "get_cost_per_gram ing_name m w3 = (r4, m4, w4)"
          by (cases "get_cost_per_gram ing_name m w3")
        have f: "files w3 = files w"
          using f1 f2 f3 by simp
        have "m' = m4 \<and> files w' = files w4"
          using assms g1 typed g2 ing_name g3 weight g4
          by (auto simp: ingredient_step_def Let_def split: sum.splits prod.splits
                dest: files_input)
        with g4 f show ?thesis by blast
      qed
    qed
  qed
qed

lemma ingredient_step_synced:
  assumes "ingredient_step recipe m w = (r, m', w')" and "ingredients_synced m w"
  shows "ingredients_synced m' w'"
  using ingredient_step_files [OF assms(1)]
proof (elim disjE conjE exE)
  assume "m' = m" "files w' = files w"
  with assms(2) synced_files_cong [of w' w m] show ?thesis by simp
next
  fix n w3 r4 w4
  assume g: "get_cost_per_gram n m w3 = (r4, m', w4)"
    and f: "files w3 = files w" "files w' = files w4"
  from assms(2) f synced_files_cong [of w3 w m] have "ingredients_synced m w3" by simp
  from get_cost_per_gram_synced [OF g this] f synced_files_cong [of w' w4 m']
  show ?thesis by simp
qed

lemma add_ingredients_synced:
  assumes "add_ingredients recipe m w = (r, m', w')" and "ingredients_synced m w"
  shows "ingredients_synced m' w'"
  using assms
  by (induction rule: add_ingredients_result_induct) (auto dest: ingredient_step_synced)

lemma create_recipe_synced:
  assumes "create_recipe m w = (r, m', w')" and "ingredients_synced m w"
  shows "ingredients_synced m' w'"
proof -
  have loop: "\<And>recipe m w2 r m' w' w. add_ingredients recipe m w2 = (r, m', w') \<Longrightarrow>
                files w2 = files w \<Longrightarrow> ingredients_synced m w \<Longrightarrow> ingredients_synced m' w'"
    using add_ingredients_synced by (simp add: ingredients_synced_def)
  have keep: "\<And>m w w'. files w' = files w \<Longrightarrow> ingredients_synced m w \<Longrightarrow>
                ingredients_synced m w'"
    by (simp add: ingredients_synced_def)
  have saved: "\<And>m d x w. ingredients_synced (m\<lparr>recipes_db := d\<rparr>)
                  (save_data RECIPES_FILE d (print x w)) = ingredients_synced m w"
    using files_differ
    by (simp add: ingredients_synced_def save_data_def split: option.splits)
  from assms show ?thesis
    by (auto simp: create_recipe_def Let_def saved split: prod.splits sum.splits
           dest!: get_positive_float_files get_non_empty_string_files
           dest: loop keep)
qed

lemma run_operation_synced:
  assumes "run_operation op m w = (r, m', w')" and "ingredients_synced m w"
  shows "ingredients_synced m' w'"
  using assms
  by (cases op)
     (auto simp: run_operation_def ingredients_synced_def [of _ "view_recipe_cost _ _"]
             files_view_recipe_cost
           split: prod.splits
           dest: get_cost_per_gram_synced create_recipe_synced
           simp: ingredients_synced_def [symmetric])

lemma run_operations_appends:
  "run_operations ops m w = (r, m', w') \<Longrightarrow>
     (\<exists>added. ingredients_db m' = ingredients_db m @ added)
     \<and> (ingredients_synced m w \<longrightarrow> ingredients_synced m' w')"
proof (induction ops arbitrary: m w)
  case Nil
  then show ?case by simp
next
  case (Cons op ops)
  obtain r1 m1 w1 where s: "run_operation op m w = (r1, m1, w1)"
    by (cases "run_operation op m w")
  note a = run_operation_appends [OF s] run_operation_synced [OF s]
  show ?case
  proof (cases r1)
    case (Inl e)
    with Cons.prems s a show ?thesis by auto
  next
    case (Inr u)
    with Cons.prems s have "run_operations ops m1 w1 = (r, m', w')" by simp
    from Cons.IH [OF this] a show ?thesis by auto
  qed
qed

section \<open>The claims\<close>

text \<open>
  C1: the claim is that the portion count stored in the Recipe is never 0, because
  \<open>get_positive_float\<close> accepts only values above 0. The code breaks it: the session below
  answers 0.5 to the portions prompt; \<open>get_positive_float\<close> accepts it (0.5 is positive),
  \<open>int\<close> truncates it to 0, the Recipe holds \<open>portions = 0\<close>, and after the ingredients
  are entered \<open>cost_per_portion\<close> raises \<open>ZeroDivisionError\<close>.
\<close>

theorem create_recipe_zero_portions:
  "float ''0.5'' = Some (1 / 2)
   \<and> fst (get_positive_float ''Enter number of portions: ''
            \<lparr>stdin = [''0.5''], stdout = [], files = Map.empty\<rparr>) = Inr (1 / 2)
   \<and> portions (Recipe_init ''Pancakes'' (py_int (1 / 2))) = 0
   \<and> fst (create_recipe \<lparr>ingredients_db = [], recipes_db = []\<rparr>
            \<lparr>stdin = [''Pancakes'', ''0.5'', ''Eggs'', ''100'', ''0.05'', ''n''],
             stdout = [], files = Map.empty\<rparr>) = Inl ZeroDivisionError"
  by code_simp

text \<open>
  C2: for every recipe with at least one ingredient and a positive portion count,
  \<open>cost_per_portion\<close> returns the sum over the ingredients of weight times cost per gram,
  divided by the portions; and the total cost of any ingredient is its weight times its
  cost per gram.
\<close>

theorem cost_per_portion_is_sum_over_portions:
  assumes "ingredients r \<noteq> []" and "0 < portions r"
  shows "cost_per_portion r
           = Inr ((\<Sum>ing\<leftarrow>ingredients r. weight_g ing * cost_per_g ing) / of_int (portions r))
         \<and> Ingredient_total_cost i = weight_g i * cost_per_g i"
  using assms
  by (simp add: cost_per_portion_def Recipe_total_cost_def Ingredient_total_cost_def
        foldl_add_sum_list)

text \<open>A recipe of two ingredients and four portions: 20 in total, 5 per portion.\<close>

theorem cost_per_portion_is_sum_over_portions_witness:
  "ingredients \<lparr>Recipe.name = ''Pancakes'', portions = 4,
       ingredients = [\<lparr>Ingredient.name = ''Eggs'', weight_g = 100, cost_per_g = 1 / 20\<rparr>,
                      \<lparr>Ingredient.name = ''Flour'', weight_g = 300, cost_per_g = 1 / 20\<rparr>]\<rparr> \<noteq> []
   \<and> (0::int) < 4
   \<and> cost_per_portion \<lparr>Recipe.name = ''Pancakes'', portions = 4,
       ingredients = [\<lparr>Ingredient.name = ''Eggs'', weight_g = 100, cost_per_g = 1 / 20\<rparr>,
                      \<lparr>Ingredient.name = ''Flour'', weight_g = 300, cost_per_g = 1 / 20\<rparr>]\<rparr> = Inr 5
   \<and> Ingredient_total_cost \<lparr>Ingredient.name = ''Eggs'', weight_g = 100, cost_per_g = 1 / 20\<rparr> = 5"
  using cost_per_portion_is_sum_over_portions
    [of "\<lparr>Recipe.name = ''Pancakes'', portions = 4,
       ingredients = [\<lparr>Ingredient.name = ''Eggs'', weight_g = 100, cost_per_g = 1 / 20\<rparr>,
                      \<lparr>Ingredient.name = ''Flour'', weight_g = 300, cost_per_g = 1 / 20\<rparr>]\<rparr>"
        "\<lparr>Ingredient.name = ''Eggs'', weight_g = 100, cost_per_g = 1 / 20\<rparr>"]
  by simp

text \<open>
  C3, as amended: when no known name equals the typed name case-insensitively,
  \<open>suggest_name\<close> returns the typed name, with no prompt, if there is no suggestion;
  otherwise it prompts with the first suggestion and reads one line: it returns the
  suggestion when that line, stripped of surrounding whitespace and lowercased, is \<open>y\<close>,
  and the typed name for every other line. On an exhausted input the prompt raises
  \<open>EOFError\<close>.
\<close>

theorem suggest_name_fuzzy:
  assumes "\<forall>name \<in> set valid_names. str_lower name \<noteq> str_lower input_name"
  shows "suggest_name input_name valid_names w =
    (case suggestions (str_lower input_name) valid_names of
       [] \<Rightarrow> (Inr input_name, w)
     | suggestion # _ \<Rightarrow>
         (case stdin w of
            [] \<Rightarrow> (Inl EOFError, w\<lparr>stdout := stdout w @ [Prompt (confirm_prompt suggestion input_name)]\<rparr>)
          | response # rest \<Rightarrow>
              (Inr (if str_lower (str_strip response) = ''y'' then suggestion else input_name),
               w\<lparr>stdin := rest, stdout := stdout w @ [Prompt (confirm_prompt suggestion input_name)]\<rparr>)))"
proof -
  from assms have "find (\<lambda>name. str_lower name = str_lower input_name) valid_names = None"
    by (auto simp: find_None_iff)
  then show ?thesis
    by (simp add: suggest_name_def input_def print_def split: list.splits)
qed

text \<open>
  The store knows Sugar. Typing Suga and answering \<open>Y\<close> gives Sugar, answering \<open>n\<close> gives
  Suga; typing Milk gives Milk and reads nothing.
\<close>

theorem suggest_name_fuzzy_witness:
  "str_lower ''Sugar'' \<noteq> str_lower ''Suga'' \<and> str_lower ''Sugar'' \<noteq> str_lower ''Milk''
   \<and> suggest_name ''Suga'' [''Sugar''] \<lparr>stdin = [''Y''], stdout = [], files = Map.empty\<rparr>
       = (Inr ''Sugar'',
          \<lparr>stdin = [], stdout = [Prompt (confirm_prompt ''Sugar'' ''Suga'')], files = Map.empty\<rparr>)
   \<and> suggest_name ''Suga'' [''Sugar''] \<lparr>stdin = [''n''], stdout = [], files = Map.empty\<rparr>
       = (Inr ''Suga'',
          \<lparr>stdin = [], stdout = [Prompt (confirm_prompt ''Sugar'' ''Suga'')], files = Map.empty\<rparr>)
   \<and> suggest_name ''Milk'' [''Sugar''] \<lparr>stdin = [''y''], stdout = [], files = Map.empty\<rparr>
       = (Inr ''Milk'', \<lparr>stdin = [''y''], stdout = [], files = Map.empty\<rparr>)"
proof -
  have l: "str_lower ''Sugar'' = ''sugar''" "str_lower ''Suga'' = ''suga''"
    "str_lower ''Milk'' = ''milk''"
    "str_lower (str_strip ''Y'') = ''y''" "str_lower (str_strip ''n'') = ''n''"
    by code_simp+
  then have h: "\<forall>name \<in> set [''Sugar'']. str_lower name \<noteq> str_lower ''Suga''"
    "\<forall>name \<in> set [''Sugar'']. str_lower name \<noteq> str_lower ''Milk''"
    by simp_all
  from suggest_name_fuzzy [OF h(1), of "\<lparr>stdin = [''Y''], stdout = [], files = Map.empty\<rparr>"]
    suggest_name_fuzzy [OF h(1), of "\<lparr>stdin = [''n''], stdout = [], files = Map.empty\<rparr>"]
    suggest_name_fuzzy [OF h(2), of "\<lparr>stdin = [''y''], stdout = [], files = Map.empty\<rparr>"]
    h l
  show ?thesis by (simp add: suggestions_def)
qed

text \<open>
  C3 as first stated fails: the answer \<open>" y"\<close> (a space, then y) is not a case-insensitive
  \<open>y\<close>, yet \<open>suggest_name\<close> strips it and returns the suggestion Sugar, not the typed Suga.
\<close>

theorem suggest_name_strips_confirmation:
  "str_lower ''Sugar'' \<noteq> str_lower ''Suga''
   \<and> suggestions (str_lower ''Suga'') [''Sugar''] = [''Sugar'']
   \<and> str_lower '' y'' \<noteq> ''y''
   \<and> fst (suggest_name ''Suga'' [''Sugar''] \<lparr>stdin = ['' y''], stdout = [], files = Map.empty\<rparr>)
       = Inr ''Sugar''
   \<and> ''Sugar'' \<noteq> ''Suga''"
  by code_simp

text \<open>
  C4: if some known name equals the typed name case-insensitively, \<open>suggest_name\<close> returns
  a known name with that property (the first one in the order of the store), and the
  world is unchanged: nothing is prompted and nothing is read.
\<close>

theorem suggest_name_exact_match:
  assumes "\<exists>name \<in> set valid_names. str_lower name = str_lower input_name"
  shows "\<exists>name. suggest_name input_name valid_names w = (Inr name, w)
           \<and> find (\<lambda>name. str_lower name = str_lower input_name) valid_names = Some name
           \<and> name \<in> set valid_names \<and> str_lower name = str_lower input_name"
proof -
  from assms obtain name where
    f: "find (\<lambda>name. str_lower name = str_lower input_name) valid_names = Some name"
    by (cases "find (\<lambda>name. str_lower name = str_lower input_name) valid_names")
       (auto simp: find_None_iff)
  then have "name \<in> set valid_names" "str_lower name = str_lower input_name"
    by (auto simp: find_Some_iff)
  with f show ?thesis
    by (simp add: suggest_name_def)
qed

text \<open>Typing Flour when the store knows flour.\<close>

theorem suggest_name_exact_match_witness:
  "(\<exists>name \<in> set [''flour'']. str_lower name = str_lower ''Flour'')
   \<and> suggest_name ''Flour'' [''flour''] \<lparr>stdin = [''y''], stdout = [], files = Map.empty\<rparr>
       = (Inr ''flour'', \<lparr>stdin = [''y''], stdout = [], files = Map.empty\<rparr>)"
proof -
  have l: "str_lower ''flour'' = ''flour''" "str_lower ''Flour'' = ''flour''"
    by code_simp+
  then have h: "\<exists>name \<in> set [''flour'']. str_lower name = str_lower ''Flour''"
    by simp
  from suggest_name_exact_match [OF h, of "\<lparr>stdin = [''y''], stdout = [], files = Map.empty\<rparr>"] h l
  show ?thesis by auto
qed

text \<open>
  C5: \<open>get_cost_per_gram\<close> resolves the name against the keys of the ingredient store.
  When the resolved name is in the store it returns the stored cost, the manager is
  unchanged and no file is written. When it is not, the cost read by
  \<open>get_positive_float\<close> is positive, it is appended to the in-memory store under the
  resolved name, the ingredient file then holds the whole new store (no other file
  changes), and that cost is returned; if the prompt fails, nothing is stored or written.
\<close>

theorem get_cost_per_gram_lookup_or_insert:
  assumes "suggest_name n (map fst (ingredients_db m)) w = (Inr n', w1)"
  shows "case map_of (ingredients_db m) n' of
           Some c \<Rightarrow> get_cost_per_gram n m w = (Inr c, m, w1) \<and> files w1 = files w
         | None \<Rightarrow>
             (case get_positive_float (''Enter cost per gram for '' @ n' @ '': '') w1 of
                (Inl e, w2) \<Rightarrow> get_cost_per_gram n m w = (Inl e, m, w2) \<and> files w2 = files w
              | (Inr cost, w2) \<Rightarrow>
                  0 < cost
                  \<and> get_cost_per_gram n m w =
                      (Inr cost,
                       m\<lparr>ingredients_db := ingredients_db m @ [(n', cost)]\<rparr>,
                       w2\<lparr>files := (files w)(INGREDIENTS_FILE \<mapsto>
                                      Json_object (ingredients_db m @ [(n', cost)]))\<rparr>))"
proof (cases "map_of (ingredients_db m) n'")
  case (Some c)
  with assms suggest_name_files [OF assms] show ?thesis
    by (simp add: get_cost_per_gram_def)
next
  case None
  obtain r2 w2 where g: "get_positive_float (''Enter cost per gram for '' @ n' @ '': '') w1 = (r2, w2)"
    by (cases "get_positive_float (''Enter cost per gram for '' @ n' @ '': '') w1")
  have f: "files w2 = files w"
    using get_positive_float_files [OF g] suggest_name_files [OF assms] by simp
  show ?thesis
  proof (cases r2)
    case (Inl e)
    with None assms g f show ?thesis
      by (simp add: get_cost_per_gram_def)
  next
    case (Inr cost)
    with g have "0 < cost" by (auto dest: get_positive_float_positive)
    with None assms g f Inr show ?thesis
      by (simp add: get_cost_per_gram_def save_data_def update_absent)
  qed
qed

text \<open>
  The store knows Eggs. Asking for eggs returns its cost and changes nothing; asking for
  Milk reads 0.002 from the user, stores it and writes the file.
\<close>

theorem get_cost_per_gram_lookup_or_insert_witness:
  "suggest_name ''eggs'' (map fst (ingredients_db \<lparr>ingredients_db = [(''Eggs'', 1 / 20)], recipes_db = []\<rparr>))
       \<lparr>stdin = [''0.002''], stdout = [], files = Map.empty\<rparr>
     = (Inr ''Eggs'', \<lparr>stdin = [''0.002''], stdout = [], files = Map.empty\<rparr>)
   \<and> get_cost_per_gram ''eggs'' \<lparr>ingredients_db = [(''Eggs'', 1 / 20)], recipes_db = []\<rparr>
         \<lparr>stdin = [''0.002''], stdout = [], files = Map.empty\<rparr>
       = (Inr (1 / 20), \<lparr>ingredients_db = [(''Eggs'', 1 / 20)], recipes_db = []\<rparr>,
          \<lparr>stdin = [''0.002''], stdout = [], files = Map.empty\<rparr>)
   \<and> suggest_name ''Milk'' (map fst (ingredients_db \<lparr>ingredients_db = [(''Eggs'', 1 / 20)], recipes_db = []\<rparr>))
       \<lparr>stdin = [''0.002''], stdout = [], files = Map.empty\<rparr>
     = (Inr ''Milk'', \<lparr>stdin = [''0.002''], stdout = [], files = Map.empty\<rparr>)
   \<and> get_cost_per_gram ''Milk'' \<lparr>ingredients_db = [(''Eggs'', 1 / 20)], recipes_db = []\<rparr>
         \<lparr>stdin = [''0.002''], stdout = [], files = Map.empty\<rparr>
       = (Inr (1 / 500),
          \<lparr>ingredients_db = [(''Eggs'', 1 / 20), (''Milk'', 1 / 500)], recipes_db = []\<rparr>,
          \<lparr>stdin = [], stdout = [Prompt ''Enter cost per gram for Milk: ''],
           files = [INGREDIENTS_FILE \<mapsto> Json_object [(''Eggs'', 1 / 20), (''Milk'', 1 / 500)]]\<rparr>)"
proof -
  let ?m = "\<lparr>ingredients_db = [(''Eggs'', 1 / 20)], recipes_db = []\<rparr>"
  let ?w = "\<lparr>stdin = [''0.002''], stdout = [], files = Map.empty\<rparr>"
  have l: "str_lower ''eggs'' = ''eggs''" "str_lower ''Eggs'' = ''eggs''"
    "str_lower ''Milk'' = ''milk''"
    by code_simp+
  have fl: "float ''0.002'' = Some (1 / 500)"
    by code_simp
  have h1: "suggest_name ''eggs'' (map fst (ingredients_db ?m)) ?w = (Inr ''Eggs'', ?w)"
    by (simp add: suggest_name_def l)
  have h2: "suggest_name ''Milk'' (map fst (ingredients_db ?m)) ?w = (Inr ''Milk'', ?w)"
    by (simp add: suggest_name_def suggestions_def l)
  have g: "get_positive_float ''Enter cost per gram for Milk: '' ?w
             = (Inr (1 / 500), \<lparr>stdin = [], stdout = [Prompt ''Enter cost per gram for Milk: ''],
                                files = Map.empty\<rparr>)"
    by (simp add: get_positive_float.simps input_def print_def fl)
  from get_cost_per_gram_lookup_or_insert [OF h1] get_cost_per_gram_lookup_or_insert [OF h2]
    h1 h2 g
  show ?thesis by simp
qed

text \<open>
  C6: when \<open>create_recipe\<close> completes, the recipe store is the old one updated at the
  recipe's name with the cost per portion of the recipe that was built, rounded to two
  decimal places (a whole number of hundredths, at most half a hundredth from the cost):
  that name now maps to the rounded cost, every other name maps to what it did, and the
  recipe file holds the whole new recipe store.
\<close>

theorem create_recipe_stores_rounded_cost:
  assumes "create_recipe m w = (Inr (), m', w')"
  shows "\<exists>n p w1 w2 recipe m3 w3 cost.
      get_non_empty_string ''Enter recipe name: '' w = (Inr n, w1)
    \<and> get_positive_float ''Enter number of portions: '' w1 = (Inr p, w2)
    \<and> add_ingredients (Recipe_init n (py_int p)) m w2 = (Inr recipe, m3, w3)
    \<and> Recipe.name recipe = n
    \<and> cost_per_portion recipe = Inr cost
    \<and> recipes_db m' = AList.update n (round2 cost) (recipes_db m)
    \<and> map_of (recipes_db m') n = Some (round2 cost)
    \<and> (\<exists>cents :: int. round2 cost = of_int cents / 100) \<and> \<bar>round2 cost - cost\<bar> \<le> 1 / 200
    \<and> (\<forall>k. k \<noteq> n \<longrightarrow> map_of (recipes_db m') k = map_of (recipes_db m) k)
    \<and> files w' = (files w3)(RECIPES_FILE \<mapsto> Json_object (recipes_db m'))
    \<and> stdout w' = stdout w3 @ [Cost_report n cost]"
proof -
  from assms obtain n w1 p w2 recipe m3 w3 cost where
    g1: "get_non_empty_string ''Enter recipe name: '' w = (Inr n, w1)"
    and g2: "get_positive_float ''Enter number of portions: '' w1 = (Inr p, w2)"
    and g3: "add_ingredients (Recipe_init n (py_int p)) m w2 = (Inr recipe, m3, w3)"
    and g4: "cost_per_portion recipe = Inr cost"
    and m': "m' = m3\<lparr>recipes_db := AList.update n (round2 cost) (recipes_db m3)\<rparr>"
    and w': "w' = save_data RECIPES_FILE (AList.update n (round2 cost) (recipes_db m3))
                    (print (Cost_report n cost) w3)"
    by (auto simp: create_recipe_def Let_def split: prod.splits sum.splits)
  from add_ingredients_appends [OF g3] have r: "recipes_db m3 = recipes_db m"
    by simp
  from add_ingredients_recipe [OF g3] have nm: "Recipe.name recipe = n"
    by (simp add: Recipe_init_def)
  have db: "recipes_db m' = AList.update n (round2 cost) (recipes_db m)"
    using m' r by simp
  have "\<exists>cents :: int. round2 cost = of_int cents / 100"
    by (auto simp: round2_def)
  with g1 g2 g3 g4 nm db w' r round2_close [of cost] show ?thesis
    by (auto simp: update_conv' save_data_def print_def)
qed

text \<open>
  Pancakes for three from 20 g of eggs: the cost per portion 1/3 is stored as 0.33, over
  the old entry for Pancakes, and Toast keeps its entry.
\<close>

theorem create_recipe_stores_rounded_cost_witness:
  "fst (create_recipe
         \<lparr>ingredients_db = [(''Eggs'', 1 / 20)], recipes_db = [(''Pancakes'', 9), (''Toast'', 1)]\<rparr>
         \<lparr>stdin = [''Pancakes'', ''3'', ''eggs'', ''20'', ''n''], stdout = [], files = Map.empty\<rparr>)
     = Inr ()
   \<and> recipes_db (fst (snd (create_recipe
         \<lparr>ingredients_db = [(''Eggs'', 1 / 20)], recipes_db = [(''Pancakes'', 9), (''Toast'', 1)]\<rparr>
         \<lparr>stdin = [''Pancakes'', ''3'', ''eggs'', ''20'', ''n''], stdout = [], files = Map.empty\<rparr>)))
     = [(''Pancakes'', 33 / 100), (''Toast'', 1)]
   \<and> files (snd (snd (create_recipe
         \<lparr>ingredients_db = [(''Eggs'', 1 / 20)], recipes_db = [(''Pancakes'', 9), (''Toast'', 1)]\<rparr>
         \<lparr>stdin = [''Pancakes'', ''3'', ''eggs'', ''20'', ''n''], stdout = [], files = Map.empty\<rparr>)))
       RECIPES_FILE
     = Some (Json_object [(''Pancakes'', 33 / 100), (''Toast'', 1)])"
proof -
  let ?m = "\<lparr>ingredients_db = [(''Eggs'', 1 / 20)],
             recipes_db = [(''Pancakes'', 9), (''Toast'', 1)]\<rparr>"
  let ?w = "\<lparr>stdin = [''Pancakes'', ''3'', ''eggs'', ''20'', ''n''], stdout = [],
             files = Map.empty\<rparr>"
  let ?m' = "fst (snd (create_recipe ?m ?w))"
  let ?w' = "snd (snd (create_recipe ?m ?w))"
  have r: "fst (create_recipe ?m ?w) = Inr ()"
    by code_simp
  have d: "recipes_db ?m' = [(''Pancakes'', 33 / 100), (''Toast'', 1)]"
    by code_simp
  from r have h: "create_recipe ?m ?w = (Inr (), ?m', ?w')"
    by (simp add: prod_eq_iff)
  from create_recipe_stores_rounded_cost [OF h]
  have "files ?w' RECIPES_FILE = Some (Json_object (recipes_db ?m'))"
    by auto
  with r d show ?thesis by simp
qed

text \<open>
  C8: loading from a file that does not exist gives the empty mapping and no error; a
  load that fails fails with the parse error, on a file that exists.
\<close>

theorem load_missing_file:
  "(files w filename = None \<longrightarrow> load_data filename w = Inr [])
   \<and> (\<forall>e. load_data filename w = Inl e \<longrightarrow> e = JSONDecodeError \<and> files w filename = Some Malformed)"
  by (auto simp: load_data_def split: option.splits file_content.splits)

text \<open>No file gives the empty mapping; a malformed file gives the parse error.\<close>

theorem load_missing_file_witness:
  "files \<lparr>stdin = [], stdout = [], files = Map.empty\<rparr> ''recipes.json'' = None
   \<and> load_data ''recipes.json'' \<lparr>stdin = [], stdout = [], files = Map.empty\<rparr> = Inr []
   \<and> load_data ''recipes.json'' \<lparr>stdin = [], stdout = [], files = [''recipes.json'' \<mapsto> Malformed]\<rparr>
       = Inl JSONDecodeError
   \<and> files \<lparr>stdin = [], stdout = [], files = [''recipes.json'' \<mapsto> Malformed]\<rparr> ''recipes.json''
       = Some Malformed"
proof -
  have a: "files \<lparr>stdin = [], stdout = [], files = Map.empty\<rparr> ''recipes.json'' = None"
    by simp
  have b: "load_data ''recipes.json''
             \<lparr>stdin = [], stdout = [], files = [''recipes.json'' \<mapsto> Malformed]\<rparr>
           = Inl JSONDecodeError"
    by (simp add: load_data_def)
  from a b
    load_missing_file [of "\<lparr>stdin = [], stdout = [], files = Map.empty\<rparr>" "''recipes.json''"]
    load_missing_file [of "\<lparr>stdin = [], stdout = [], files = [''recipes.json'' \<mapsto> Malformed]\<rparr>"
                          "''recipes.json''"]
  show ?thesis by blast
qed

text \<open>
  C9: over any sequence of the manager's operations (\<open>get_cost_per_gram\<close>,
  \<open>create_recipe\<close>, \<open>view_recipe_cost\<close>), completed or stopped by an exception, an entry
  of the ingredient store keeps its value: the store at the end is the store at the start
  with entries appended. And if the ingredient file mirrored the store at the start, it
  mirrors it at the end.
\<close>

theorem ingredient_entries_append_only:
  assumes "run_operations ops m w = (r, m', w')"
    and "map_of (ingredients_db m) k = Some v"
  shows "map_of (ingredients_db m') k = Some v
         \<and> (\<exists>added. ingredients_db m' = ingredients_db m @ added)
         \<and> (ingredients_synced m w \<longrightarrow> ingredients_synced m' w')"
proof -
  from run_operations_appends [OF assms(1)] obtain added where
    a: "ingredients_db m' = ingredients_db m @ added"
    and s: "ingredients_synced m w \<longrightarrow> ingredients_synced m' w'"
    by blast
  from a assms(2) have "map_of (ingredients_db m') k = Some v"
    by (simp add: map_add_Some_iff)
  with a s show ?thesis by blast
qed

text \<open>
  The store knows Eggs. A lookup of eggs, a recipe that adds Milk, and a listing: Eggs
  keeps its cost, Milk is appended.
\<close>

theorem ingredient_entries_append_only_witness:
  "map_of (ingredients_db \<lparr>ingredients_db = [(''Eggs'', 1 / 20)], recipes_db = []\<rparr>) ''Eggs''
     = Some (1 / 20)
   \<and> ingredients_synced \<lparr>ingredients_db = [(''Eggs'', 1 / 20)], recipes_db = []\<rparr>
       \<lparr>stdin = [''Pancakes'', ''3'', ''Milk'', ''20'', ''0.002'', ''n''], stdout = [],
        files = [INGREDIENTS_FILE \<mapsto> Json_object [(''Eggs'', 1 / 20)]]\<rparr>
   \<and> fst (run_operations [Get_cost_per_gram ''eggs'', Create_recipe, View_recipe_cost]
       \<lparr>ingredients_db = [(''Eggs'', 1 / 20)], recipes_db = []\<rparr>
       \<lparr>stdin = [''Pancakes'', ''3'', ''Milk'', ''20'', ''0.002'', ''n''], stdout = [],
        files = [INGREDIENTS_FILE \<mapsto> Json_object [(''Eggs'', 1 / 20)]]\<rparr>) = Inr ()
   \<and> ingredients_db (fst (snd (run_operations [Get_cost_per_gram ''eggs'', Create_recipe, View_recipe_cost]
       \<lparr>ingredients_db = [(''Eggs'', 1 / 20)], recipes_db = []\<rparr>
       \<lparr>stdin = [''Pancakes'', ''3'', ''Milk'', ''20'', ''0.002'', ''n''], stdout = [],
        files = [INGREDIENTS_FILE \<mapsto> Json_object [(''Eggs'', 1 / 20)]]\<rparr>)))
     = [(''Eggs'', 1 / 20), (''Milk'', 1 / 500)]
   \<and> map_of (ingredients_db (fst (snd (run_operations [Get_cost_per_gram ''eggs'', Create_recipe, View_recipe_cost]
       \<lparr>ingredients_db = [(''Eggs'', 1 / 20)], recipes_db = []\<rparr>
       \<lparr>stdin = [''Pancakes'', ''3'', ''Milk'', ''20'', ''0.002'', ''n''], stdout = [],
        files = [INGREDIENTS_FILE \<mapsto> Json_object [(''Eggs'', 1 / 20)]]\<rparr>)))) ''Eggs''
     = Some (1 / 20)
   \<and> ingredients_synced
       (fst (snd (run_operations [Get_cost_per_gram ''eggs'', Create_recipe, View_recipe_cost]
       \<lparr>ingredients_db = [(''Eggs'', 1 / 20)], recipes_db = []\<rparr>
       \<lparr>stdin = [''Pancakes'', ''3'', ''Milk'', ''20'', ''0.002'', ''n''], stdout = [],
        files = [INGREDIENTS_FILE \<mapsto> Json_object [(''Eggs'', 1 / 20)]]\<rparr>)))
       (snd (snd (run_operations [Get_cost_per_gram ''eggs'', Create_recipe, View_recipe_cost]
       \<lparr>ingredients_db = [(''Eggs'', 1 / 20)], recipes_db = []\<rparr>
       \<lparr>stdin = [''Pancakes'', ''3'', ''Milk'', ''20'', ''0.002'', ''n''], stdout = [],
        files = [INGREDIENTS_FILE \<mapsto> Json_object [(''Eggs'', 1 / 20)]]\<rparr>)))"
proof -
  let ?ops = "[Get_cost_per_gram ''eggs'', Create_recipe, View_recipe_cost]"
  let ?m = "\<lparr>ingredients_db = [(''Eggs'', 1 / 20)], recipes_db = []\<rparr>"
  let ?w = "\<lparr>stdin = [''Pancakes'', ''3'', ''Milk'', ''20'', ''0.002'', ''n''], stdout = [],
        files = [INGREDIENTS_FILE \<mapsto> Json_object [(''Eggs'', 1 / 20)]]\<rparr>"
  have k: "map_of (ingredients_db ?m) ''Eggs'' = Some (1 / 20)"
    by simp
  have s: "ingredients_synced ?m ?w"
    by (simp add: ingredients_synced_def)
  have r: "fst (run_operations ?ops ?m ?w) = Inr ()"
    by code_simp
  have d: "ingredients_db (fst (snd (run_operations ?ops ?m ?w)))
             = [(''Eggs'', 1 / 20), (''Milk'', 1 / 500)]"
    by code_simp
  have h: "run_operations ?ops ?m ?w
             = (fst (run_operations ?ops ?m ?w), fst (snd (run_operations ?ops ?m ?w)),
                snd (snd (run_operations ?ops ?m ?w)))"
    by simp
  from ingredient_entries_append_only [OF h k] k s r d
  show ?thesis by blast
qed

text \<open>
  C10: the candidates computed by the two-clause filter of line 34 (substring, or
  prefix) are the candidates of the substring clause alone, for every typed name and
  every list of known names: the \<open>startswith\<close> clause never admits another name.
\<close>

theorem suggestions_startswith_redundant:
  "suggestions input_name_lower valid_names
     = suggestions_substring_only input_name_lower valid_names"
  unfolding suggestions_def suggestions_substring_only_def
  by (rule filter_cong) (auto dest: str_startswith_contains)

end
